theory Spec2Isabelle
  imports Complex_Main
begin

text \<open>
  A model of the RadMan 2 driver: the session class \<open>RadMan2\<close> of \<open>radman2.py\<close> (command
  framing, the mode flag, the two info queries, the measurement loop) and the limit
  standard \<open>FCC96326\<close> of \<open>radhaz_standards.py\<close> (the limit table, the nearest-entry
  lookups and the percentage conversions). Methods take the object and return it as they
  leave it, next to their result or the exception they raise. The serial port, the
  \<open>logging\<close> module and the callback are part of the state.
\<close>

section \<open>Python values used by the driver\<close>

text \<open>
  The exceptions that the modelled code can raise. \<open>ValueError\<close> is what the two info
  queries raise on a wrong field count, what \<open>float()\<close> raises on a malformed literal and
  what numpy's \<open>argmin\<close> raises on an empty array; \<open>TypeError\<close> is subscripting \<open>None\<close>;
  \<open>PortNotOpenError\<close> is pyserial's exception for I/O on a closed port.
  \<open>NotImplementedError\<close> is Python's exception for an unimplemented operation: no path
  of the modelled code raises it.
\<close>

datatype error =
    ValueError
  | TypeError
  | IndexError
  | UnicodeDecodeError
  | UnicodeEncodeError
  | PortNotOpenError
  | NotImplementedError
  | RuntimeError

text \<open>
  \<open>bytes\<close> is a list of 8-bit characters; \<open>str\<close> is a list of Unicode code points.
  An ASCII literal of the source is written \<open>ascii ''...''\<close>.
\<close>

type_synonym bytes = "char list"
type_synonym str = "nat list"

abbreviation (input) ascii :: "string \<Rightarrow> str" where
  "ascii cs \<equiv> map of_char cs"

subsection \<open>\<open>bytes.decode()\<close> and \<open>str.encode()\<close> (UTF-8, strict)\<close>

text \<open>
  \<open>utf8_dec need acc lo hi bs\<close> reads the byte values \<open>bs\<close>; \<open>need\<close> continuation bytes
  are still owed to the code point accumulated in \<open>acc\<close>, and the next one must lie in
  \<open>lo..hi\<close> (which excludes overlong forms, surrogates and values above U+10FFFF).
\<close>

fun utf8_dec :: "nat \<Rightarrow> nat \<Rightarrow> nat \<Rightarrow> nat \<Rightarrow> nat list \<Rightarrow> error + str" where
  "utf8_dec need acc lo hi [] = (if need = 0 then Inr [] else Inl UnicodeDecodeError)"
| "utf8_dec need acc lo hi (b # bs) =
     (if need = 0 then
        (if b < 0x80 then
           (case utf8_dec 0 0 0 0 bs of Inl e \<Rightarrow> Inl e | Inr cs \<Rightarrow> Inr (b # cs))
         else if 0xC2 \<le> b \<and> b \<le> 0xDF then utf8_dec 1 (b - 0xC0) 0x80 0xBF bs
         else if b = 0xE0 then utf8_dec 2 0 0xA0 0xBF bs
         else if b = 0xED then utf8_dec 2 13 0x80 0x9F bs
         else if 0xE1 \<le> b \<and> b \<le> 0xEF then utf8_dec 2 (b - 0xE0) 0x80 0xBF bs
         else if b = 0xF0 then utf8_dec 3 0 0x90 0xBF bs
         else if 0xF1 \<le> b \<and> b \<le> 0xF3 then utf8_dec 3 (b - 0xF0) 0x80 0xBF bs
         else if b = 0xF4 then utf8_dec 3 4 0x80 0x8F bs
         else Inl UnicodeDecodeError)
      else if lo \<le> b \<and> b \<le> hi then
        (if need = 1 then
           (case utf8_dec 0 0 0 0 bs of Inl e \<Rightarrow> Inl e
            | Inr cs \<Rightarrow> Inr ((acc * 64 + (b - 0x80)) # cs))
         else utf8_dec (need - 1) (acc * 64 + (b - 0x80)) 0x80 0xBF bs)
      else Inl UnicodeDecodeError)"

definition decode :: "bytes \<Rightarrow> error + str" where
  "decode raw = utf8_dec 0 0 0 0 (map of_char raw)"

fun encode :: "str \<Rightarrow> error + bytes" where
  "encode [] = Inr []"
| "encode (c # cs) =
     (if (0xD800 \<le> c \<and> c \<le> 0xDFFF) \<or> 0x10FFFF < c then Inl UnicodeEncodeError
      else case encode cs of Inl e \<Rightarrow> Inl e
      | Inr bs \<Rightarrow>
          Inr ((if c < 0x80 then [char_of c]
                else if c < 0x800 then [char_of (0xC0 + c div 64), char_of (0x80 + c mod 64)]
                else if c < 0x10000 then
                  [char_of (0xE0 + c div 4096), char_of (0x80 + c div 64 mod 64),
                   char_of (0x80 + c mod 64)]
                else
                  [char_of (0xF0 + c div 262144), char_of (0x80 + c div 4096 mod 64),
                   char_of (0x80 + c div 64 mod 64), char_of (0x80 + c mod 64)]) @ bs))"

subsection \<open>\<open>str.strip()\<close>, \<open>[:-1]\<close> and \<open>str.split(',')\<close>\<close>

text \<open>The code points for which \<open>str.isspace\<close> holds; \<open>strip()\<close> removes them at both ends.\<close>

definition isspace :: "nat \<Rightarrow> bool" where
  "isspace c \<longleftrightarrow>
     (0x09 \<le> c \<and> c \<le> 0x0D) \<or> (0x1C \<le> c \<and> c \<le> 0x20) \<or> c = 0x85 \<or> c = 0xA0 \<or>
     c = 0x1680 \<or> (0x2000 \<le> c \<and> c \<le> 0x200A) \<or> c = 0x2028 \<or> c = 0x2029 \<or>
     c = 0x202F \<or> c = 0x205F \<or> c = 0x3000"

definition strip :: "str \<Rightarrow> str" where
  "strip t = rev (dropWhile isspace (rev (dropWhile isspace t)))"

text \<open>\<open>t[:-1]\<close>: all but the last code point; the empty string stays empty.\<close>

definition drop_last :: "str \<Rightarrow> str" where
  "drop_last t = butlast t"

text \<open>\<open>t.split(',')\<close>: the pieces between the commas; always at least one piece.\<close>

fun split_comma :: "str \<Rightarrow> str list" where
  "split_comma [] = [[]]"
| "split_comma (c # cs) =
     (if c = 0x2C then [] # split_comma cs
      else case split_comma cs of [] \<Rightarrow> [[c]] | f # fs \<Rightarrow> (c # f) # fs)"

subsection \<open>\<open>float(str)\<close>\<close>

text \<open>
  Floats are idealised: a finite float is the real number it denotes (no rounding, no
  overflow), next to the two infinities and NaN that \<open>float()\<close> can also return.
\<close>

datatype pyfloat = Fin real | PInf | NInf | NaN

text \<open>\<open>x / 100.0\<close> on such a value.\<close>

fun fdiv100 :: "pyfloat \<Rightarrow> pyfloat" where
  "fdiv100 (Fin r) = Fin (r / 100)"
| "fdiv100 PInf = PInf"
| "fdiv100 NInf = NInf"
| "fdiv100 NaN = NaN"

definition isdigit :: "nat \<Rightarrow> bool" where
  "isdigit c \<longleftrightarrow> 0x30 \<le> c \<and> c \<le> 0x39"

definition digits_value :: "str \<Rightarrow> nat" where
  "digits_value ds = foldl (\<lambda>a c. 10 * a + (c - 0x30)) 0 ds"

text \<open>
  An underscore is accepted only between two digits and is then dropped; \<open>prev\<close> is the
  code point before the current position (0 at the start).
\<close>

fun underscores :: "nat \<Rightarrow> str \<Rightarrow> str option" where
  "underscores prev [] = (if prev = 0x5F then None else Some [])"
| "underscores prev (c # cs) =
     (if c = 0x5F then (if isdigit prev then underscores c cs else None)
      else if prev = 0x5F \<and> \<not> isdigit c then None
      else map_option (Cons c) (underscores c cs))"

text \<open>White space of the C locale, which is what is stripped around the literal.\<close>

definition c_isspace :: "nat \<Rightarrow> bool" where
  "c_isspace c \<longleftrightarrow> (0x09 \<le> c \<and> c \<le> 0x0D) \<or> c = 0x20"

definition lower :: "nat \<Rightarrow> nat" where
  "lower c = (if 0x41 \<le> c \<and> c \<le> 0x5A then c + 32 else c)"

text \<open>\<open>m * 10 ** e\<close> for a natural mantissa and an integer exponent.\<close>

definition scale10 :: "nat \<Rightarrow> int \<Rightarrow> real" where
  "scale10 m e = (if 0 \<le> e then real m * 10 ^ nat e else real m / 10 ^ nat (- e))"

text \<open>The exponent part: empty, or \<open>e\<close>/\<open>E\<close>, an optional sign and at least one digit.\<close>

definition exponent :: "str \<Rightarrow> int option" where
  "exponent t =
     (case t of [] \<Rightarrow> Some 0
      | c # r \<Rightarrow>
          if c = 0x65 \<or> c = 0x45 then
            (let neg = (r \<noteq> [] \<and> hd r = 0x2D);
                 ds = (if r \<noteq> [] \<and> (hd r = 0x2D \<or> hd r = 0x2B) then tl r else r)
             in if ds \<noteq> [] \<and> list_all isdigit ds
                then Some (if neg then - int (digits_value ds) else int (digits_value ds))
                else None)
          else None)"

text \<open>An unsigned decimal literal: digits, an optional fraction, an optional exponent.\<close>

definition decimal :: "str \<Rightarrow> real option" where
  "decimal t =
     (let ip = takeWhile isdigit t; r1 = dropWhile isdigit t;
          fp = (if r1 \<noteq> [] \<and> hd r1 = 0x2E then takeWhile isdigit (tl r1) else []);
          r2 = (if r1 \<noteq> [] \<and> hd r1 = 0x2E then dropWhile isdigit (tl r1) else r1)
      in if ip = [] \<and> fp = [] then None
         else case exponent r2 of None \<Rightarrow> None
              | Some e \<Rightarrow> Some (scale10 (digits_value (ip @ fp)) (e - int (length fp))))"

text \<open>
  \<open>float(t)\<close> for a string \<open>t\<close>. A non-ASCII white space counts as a blank; the literal is
  stripped of C white space and is then a signed decimal, or a signed \<open>inf\<close>, \<open>infinity\<close>
  or \<open>nan\<close> in any letter case; anything else raises \<open>ValueError\<close>. (The decimal digits
  of other scripts, which \<open>float()\<close> maps to ASCII digits, are outside this model.)
\<close>

definition py_float :: "str \<Rightarrow> error + pyfloat" where
  "py_float t =
     (case underscores 0 (map (\<lambda>c. if c < 127 then c else if isspace c then 0x20 else 0x3F) t) of
        None \<Rightarrow> Inl ValueError
      | Some u \<Rightarrow>
          (let v = rev (dropWhile c_isspace (rev (dropWhile c_isspace u)));
               neg = (v \<noteq> [] \<and> hd v = 0x2D);
               w = (if v \<noteq> [] \<and> (hd v = 0x2D \<or> hd v = 0x2B) then tl v else v);
               l = map lower w
           in if l = ascii ''inf'' \<or> l = ascii ''infinity'' then Inr (if neg then NInf else PInf)
              else if l = ascii ''nan'' then Inr NaN
              else case decimal w of None \<Rightarrow> Inl ValueError
                   | Some r \<Rightarrow> Inr (Fin (if neg then - r else r))))"

section \<open>The serial transport\<close>

text \<open>
  The pyserial port \<open>self.s\<close>: whether it is open, every \<open>write()\<close> made so far in order,
  and the lines that the device will still deliver. \<open>readline()\<close> returns the next line,
  or \<open>b''\<close> when the timeout passes with nothing to read.
\<close>

record serial_port =
  is_open :: bool
  written :: "bytes list"
  incoming :: "bytes list"

definition serial_write :: "bytes \<Rightarrow> serial_port \<Rightarrow> error + serial_port" where
  "serial_write bs p =
     (if is_open p then Inr (p\<lparr>written := written p @ [bs]\<rparr>) else Inl PortNotOpenError)"

definition serial_readline :: "serial_port \<Rightarrow> error + (bytes \<times> serial_port)" where
  "serial_readline p =
     (if \<not> is_open p then Inl PortNotOpenError
      else case incoming p of [] \<Rightarrow> Inr ([], p)
           | l # ls \<Rightarrow> Inr (l, p\<lparr>incoming := ls\<rparr>))"

definition serial_close :: "serial_port \<Rightarrow> serial_port" where
  "serial_close p = p\<lparr>is_open := False\<rparr>"

section \<open>The device session (class \<open>RadMan2\<close>)\<close>

text \<open>
  A dictionary built by the driver maps its literal keys to strings or floats.
\<close>

datatype pyval = PStr str | PFloat pyfloat

type_synonym dict = "string \<rightharpoonup> pyval"

text \<open>The records handed to the \<open>logging\<close> module, by call site.\<close>

datatype log_event =
    Warning_probe_info error
  | Error_not_enough_fields
  | Error_could_not_parse str error
  | Warning_far_from_table real real

text \<open>
  The attributes of a session. \<open>callback\<close> returns the exception it raises, if any.
  \<open>threads_started\<close> counts the measurement threads created and started (the attribute
  \<open>measurement_thread\<close> holds the latest), \<open>logged\<close> is the logging output and
  \<open>delivered\<close> the samples passed to the callback, each in order.
\<close>

record RadMan2 =
  measurement_running :: bool
  callback :: "(dict \<Rightarrow> error option) option"
  sample_rate :: int
  s :: serial_port
  device_info :: dict
  probe_info :: dict
  threads_started :: nat
  logged :: "log_event list"
  delivered :: "dict list"

text \<open>
  \<open>command\<close> returns the reply (\<open>None\<close> for both bare \<open>return\<close>s) or the exception raised,
  together with the session as it is left.
\<close>

definition command :: "str \<Rightarrow> bool \<Rightarrow> RadMan2 \<Rightarrow> (error + str option) \<times> RadMan2" where
  "command cmd noreply self =
     (if measurement_running self then (Inr None, self)
      else case encode cmd of Inl e \<Rightarrow> (Inl e, self)
      | Inr enc \<Rightarrow>
          (case serial_write (enc @ '';'') (s self) of Inl e \<Rightarrow> (Inl e, self)
           | Inr p \<Rightarrow>
               if noreply then (Inr None, self\<lparr>s := p\<rparr>)
               else
                 (case serial_readline p of Inl e \<Rightarrow> (Inl e, self\<lparr>s := p\<rparr>)
                  | Inr (response, p') \<Rightarrow>
                      (case decode response of Inl e \<Rightarrow> (Inl e, self\<lparr>s := p'\<rparr>)
                       | Inr txt \<Rightarrow> (Inr (Some (strip txt)), self\<lparr>s := p'\<rparr>)))))"

definition get_device_info :: "RadMan2 \<Rightarrow> (error + dict) \<times> RadMan2" where
  "get_device_info self =
     (case command (ascii ''DEVICE_INFO?'') False self of
        (Inl e, self') \<Rightarrow> (Inl e, self')
      | (Inr None, self') \<Rightarrow> (Inl TypeError, self')
      | (Inr (Some data), self') \<Rightarrow>
          (let flds = split_comma (drop_last data)
           in if length flds \<noteq> 10 then (Inl ValueError, self')
              else (Inr [''product_name'' \<mapsto> PStr (flds ! 0),
                         ''production_id'' \<mapsto> PStr (flds ! 1),
                         ''serial_number'' \<mapsto> PStr (flds ! 2),
                         ''device_id'' \<mapsto> PStr (flds ! 3),
                         ''device_type'' \<mapsto> PStr (flds ! 4),
                         ''firmware_version'' \<mapsto> PStr (flds ! 5),
                         ''calibration_date'' \<mapsto> PStr (flds ! 6),
                         ''calibration_due'' \<mapsto> PStr (flds ! 7),
                         ''num_options'' \<mapsto> PStr (flds ! 8),
                         ''options_name'' \<mapsto> PStr (flds ! 9)], self')))"

text \<open>
  The \<open>try\<close> block of \<open>get_probe_info\<close>: the assignments are made in order into the
  dictionary, and the first exception ends the block, leaving what was assigned before it.
\<close>

definition probe_optional :: "str list \<Rightarrow> dict \<Rightarrow> dict \<times> error option" where
  "probe_optional flds output =
     (case py_float (flds ! 6) of Inl e \<Rightarrow> (output, Some e)
      | Inr x6 \<Rightarrow>
     (let o1 = output(''e_field_lower_frequency_hz'' \<mapsto> PFloat x6)
      in case py_float (flds ! 7) of Inl e \<Rightarrow> (o1, Some e)
      | Inr x7 \<Rightarrow>
     (let o2 = o1(''e_field_upper_frequency_hz'' \<mapsto> PFloat x7)
      in case py_float (flds ! 8) of Inl e \<Rightarrow> (o2, Some e)
      | Inr x8 \<Rightarrow>
     (let o3 = o2(''h_field_lower_frequency_hz'' \<mapsto> PFloat x8)
      in case py_float (flds ! 9) of Inl e \<Rightarrow> (o3, Some e)
      | Inr x9 \<Rightarrow>
          (o3(''h_field_upper_frequency_hz'' \<mapsto> PFloat x9,
              ''shaped'' \<mapsto> PStr (flds ! 10),
              ''standard_name'' \<mapsto> PStr (flds ! 11)), None)))))"

definition get_probe_info :: "RadMan2 \<Rightarrow> (error + dict) \<times> RadMan2" where
  "get_probe_info self =
     (case command (ascii ''Probe_INFO?'') False self of
        (Inl e, self') \<Rightarrow> (Inl e, self')
      | (Inr None, self') \<Rightarrow> (Inl TypeError, self')
      | (Inr (Some data), self') \<Rightarrow>
          (let flds = split_comma (drop_last data)
           in if length flds \<noteq> 12 then (Inl ValueError, self')
              else case probe_optional flds
                     [''product_name'' \<mapsto> PStr (flds ! 0),
                      ''production_id'' \<mapsto> PStr (flds ! 1),
                      ''serial_number'' \<mapsto> PStr (flds ! 2),
                      ''calibration_date'' \<mapsto> PStr (flds ! 3),
                      ''calibration_due'' \<mapsto> PStr (flds ! 4),
                      ''field_type'' \<mapsto> PStr (flds ! 5)] of
                (output, None) \<Rightarrow> (Inr output, self')
              | (output, Some e) \<Rightarrow>
                  (Inr output, self'\<lparr>logged := logged self' @ [Warning_probe_info e]\<rparr>)))"

definition set_remote_mode :: "bool \<Rightarrow> RadMan2 \<Rightarrow> (error + bool) \<times> RadMan2" where
  "set_remote_mode remote_mode self =
     (case command (if remote_mode then ascii ''REMOTE ON'' else ascii ''REMOTE OFF'') False self of
        (Inl e, self') \<Rightarrow> (Inl e, self')
      | (Inr status, self') \<Rightarrow> (Inr (status = Some (ascii ''0;'')), self'))"

text \<open>
  Lines 153 to 159 of \<open>measurement_loop\<close>: the sample built from six fields, or the
  exception of the first \<open>float()\<close> that fails.
\<close>

definition measurement_output :: "str list \<Rightarrow> error + dict" where
  "measurement_output flds =
     (case py_float (flds ! 0) of Inl e \<Rightarrow> Inl e
      | Inr e_pct \<Rightarrow>
     (case py_float (flds ! 1) of Inl e \<Rightarrow> Inl e
      | Inr h_pct \<Rightarrow>
     (case py_float (flds ! 5) of Inl e \<Rightarrow> Inl e
      | Inr battery \<Rightarrow>
          Inr [''e_field_percentage'' \<mapsto> PFloat (fdiv100 e_pct),
               ''h_field_percentage'' \<mapsto> PFloat (fdiv100 h_pct),
               ''unknown'' \<mapsto> PStr (flds ! 2),
               ''e_field_ok'' \<mapsto> PStr (flds ! 3),
               ''h_fields_ok'' \<mapsto> PStr (flds ! 4),
               ''battery_percentage'' \<mapsto> PFloat battery])))"

text \<open>
  One pass through the body of the \<open>while\<close> loop. The read and \<open>decode()\<close> stand before
  the \<open>try\<close>, so their exceptions leave the loop (\<open>Inl\<close>); what the \<open>try\<close> block raises is
  logged and the pass ends normally.
\<close>

definition measurement_iteration :: "RadMan2 \<Rightarrow> (error + unit) \<times> RadMan2" where
  "measurement_iteration self =
     (case serial_readline (s self) of Inl e \<Rightarrow> (Inl e, self)
      | Inr (raw, p) \<Rightarrow>
     (case decode raw of Inl e \<Rightarrow> (Inl e, self\<lparr>s := p\<rparr>)
      | Inr txt \<Rightarrow>
     (let line = strip txt; self1 = self\<lparr>s := p\<rparr>; flds = split_comma (drop_last line)
      in if length flds \<noteq> 6
         then (Inr (), self1\<lparr>logged := logged self1 @ [Error_not_enough_fields]\<rparr>)
         else case measurement_output flds of
                Inl e \<Rightarrow> (Inr (), self1\<lparr>logged := logged self1 @ [Error_could_not_parse line e]\<rparr>)
              | Inr output \<Rightarrow>
                 (case callback self1 of None \<Rightarrow> (Inr (), self1)
                  | Some cb \<Rightarrow>
                     (let self2 = self1\<lparr>delivered := delivered self1 @ [output]\<rparr>
                      in case cb output of None \<Rightarrow> (Inr (), self2)
                         | Some e \<Rightarrow>
                             (Inr (), self2\<lparr>logged := logged self2 @ [Error_could_not_parse line e]\<rparr>))))))"

text \<open>
  The loop, for at most \<open>n\<close> passes: \<open>n\<close> is the number of passes made before another
  thread clears \<open>measurement_running\<close> (the loop itself never clears it).
\<close>

fun measurement_loop :: "nat \<Rightarrow> RadMan2 \<Rightarrow> (error + unit) \<times> RadMan2" where
  "measurement_loop 0 self = (Inr (), self)"
| "measurement_loop (Suc n) self =
     (if \<not> measurement_running self then (Inr (), self)
      else case measurement_iteration self of
             (Inl e, self') \<Rightarrow> (Inl e, self')
           | (Inr _, self') \<Rightarrow> measurement_loop n self')"

definition start_measurement :: "RadMan2 \<Rightarrow> (error + unit) \<times> RadMan2" where
  "start_measurement self =
     (if measurement_running self then (Inr (), self)
      else case set_remote_mode True self of
             (Inl e, self1) \<Rightarrow> (Inl e, self1)
           | (Inr _, self1) \<Rightarrow>
               (case command (ascii ''MEAS_START_CIB'') True self1 of
                  (Inl e, self2) \<Rightarrow> (Inl e, self2)
                | (Inr _, self2) \<Rightarrow>
                    (Inr (), self2\<lparr>measurement_running := True,
                                   threads_started := Suc (threads_started self2)\<rparr>)))"

definition stop_measurement :: "RadMan2 \<Rightarrow> (error + unit) \<times> RadMan2" where
  "stop_measurement self =
     (case command (ascii ''MEAS_STOP_CIB'') True self of
        (Inl e, self') \<Rightarrow> (Inl e, self')
      | (Inr _, self') \<Rightarrow> (Inr (), self'))"

text \<open>\<open>close\<close>: clear the flag, sleep, close the port.\<close>

definition close :: "RadMan2 \<Rightarrow> RadMan2" where
  "close self = self\<lparr>measurement_running := False, s := serial_close (s self)\<rparr>"

section \<open>The exposure-limit standard (class \<open>FCC96326\<close>)\<close>

text \<open>
  The three numpy arrays are lists of reals (idealised floats), and a frequency is a real.
  \<open>np.arange(start, stop, step)\<close> has \<open>ceil((stop - start) / step)\<close> entries
  \<open>start + i * step\<close>.
\<close>

record FCC96326 =
  name :: string
  frequency_mhz :: "real list"
  efield :: "real list"
  hfield :: "real list"

definition arange :: "real \<Rightarrow> real \<Rightarrow> real \<Rightarrow> real list" where
  "arange start stop step =
     map (\<lambda>i. start + real i * step) [0..<nat \<lceil>(stop - start) / step\<rceil>]"

definition ones :: "nat \<Rightarrow> real list" where
  "ones n = replicate n 1"

text \<open>The three \<open>np.append\<close> calls that end each band of the table.\<close>

definition append_band :: "real list \<Rightarrow> real list \<Rightarrow> real list \<Rightarrow> FCC96326 \<Rightarrow> FCC96326" where
  "append_band freq ef hf self =
     self\<lparr>frequency_mhz := frequency_mhz self @ freq,
          efield := efield self @ ef,
          hfield := hfield self @ hf\<rparr>"

definition init_tables_occupational :: "FCC96326 \<Rightarrow> FCC96326" where
  "init_tables_occupational self =
     (let t0 = self\<lparr>frequency_mhz := [], efield := [], hfield := []\<rparr>;
          f1 = arange 0.003 0.1 0.01;
          t1 = append_band f1 (map (\<lambda>x. x * 614) (ones (length f1)))
                 (map (\<lambda>x. x * 163) (ones (length f1))) t0;
          f2 = arange 0.1 3.0 0.01;
          t2 = append_band f2 (map (\<lambda>x. x * 614) (ones (length f2)))
                 (map (\<lambda>f. 16.3 / f) f2) t1;
          f3 = arange 3.0 30.0 0.01;
          t3 = append_band f3 (map (\<lambda>f. 1842.0 / f) f3) (map (\<lambda>f. 16.3 / f) f3) t2;
          f4 = arange 30.0 100.0 0.01;
          t4 = append_band f4 (map (\<lambda>x. x * 61.4) (ones (length f4)))
                 (map (\<lambda>f. 16.3 / f) f4) t3;
          f5 = arange 100.0 300.0 0.01;
          t5 = append_band f5 (map (\<lambda>x. x * 61.4) (ones (length f5)))
                 (map (\<lambda>x. x * 0.163) (ones (length f5))) t4;
          f6 = arange 300.0 3000.0 0.01;
          t6 = append_band f6 (map (\<lambda>f. sqrt (f / 300 * 377.0)) f6)
                 (map (\<lambda>f. sqrt (f / 300 / 377.0)) f6) t5
      in t6)"

definition init_tables_general_public :: "FCC96326 \<Rightarrow> FCC96326" where
  "init_tables_general_public self = self\<lparr>frequency_mhz := [], efield := [], hfield := []\<rparr>"

text \<open>The constructor \<open>FCC96326(occupational)\<close>.\<close>

definition FCC96326_init :: "bool \<Rightarrow> FCC96326" where
  "FCC96326_init occupational =
     (if occupational
      then init_tables_occupational
             \<lparr>name = ''FCC 96-326 Controlled Environments (Occupational)'',
              frequency_mhz = [], efield = [], hfield = []\<rparr>
      else init_tables_general_public
             \<lparr>name = ''FCC 96-326 Uncontrolled Environments (General Public)'',
              frequency_mhz = [], efield = [], hfield = []\<rparr>)"

text \<open>
  numpy's \<open>argmin\<close>: a scan that keeps the smallest value seen and its index, so the
  first occurrence of the minimum wins; an empty array raises \<open>ValueError\<close>.
\<close>

fun argmin_scan :: "real list \<Rightarrow> nat \<Rightarrow> real \<Rightarrow> nat \<Rightarrow> nat" where
  "argmin_scan [] i mv mi = mi"
| "argmin_scan (x # xs) i mv mi =
     (if x < mv then argmin_scan xs (Suc i) x i else argmin_scan xs (Suc i) mv mi)"

definition np_argmin :: "real list \<Rightarrow> error + nat" where
  "np_argmin xs = (case xs of [] \<Rightarrow> Inl ValueError | x # r \<Rightarrow> Inr (argmin_scan r 1 x 0))"

text \<open>Indexing an array: \<open>IndexError\<close> out of range.\<close>

definition getitem :: "real list \<Rightarrow> nat \<Rightarrow> error + real" where
  "getitem xs i = (if i < length xs then Inr (xs ! i) else Inl IndexError)"

text \<open>
  The two lookups return the value or the exception, and the warnings logged on the way.
\<close>

definition efield_limit :: "FCC96326 \<Rightarrow> real \<Rightarrow> (error + real) \<times> log_event list" where
  "efield_limit self f =
     (case np_argmin (map (\<lambda>x. \<bar>x - f\<bar>) (frequency_mhz self)) of
        Inl e \<Rightarrow> (Inl e, [])
      | Inr idx \<Rightarrow>
          (case getitem (frequency_mhz self) idx of Inl e \<Rightarrow> (Inl e, [])
           | Inr nearest \<Rightarrow>
               (getitem (efield self) idx,
                if \<bar>nearest - f\<bar> > 1.0 then [Warning_far_from_table f nearest] else [])))"

definition hfield_limit :: "FCC96326 \<Rightarrow> real \<Rightarrow> (error + real) \<times> log_event list" where
  "hfield_limit self f =
     (case np_argmin (map (\<lambda>x. \<bar>x - f\<bar>) (frequency_mhz self)) of
        Inl e \<Rightarrow> (Inl e, [])
      | Inr idx \<Rightarrow>
          (case getitem (frequency_mhz self) idx of Inl e \<Rightarrow> (Inl e, [])
           | Inr nearest \<Rightarrow>
               (getitem (hfield self) idx,
                if \<bar>nearest - f\<bar> > 1.0 then [Warning_far_from_table f nearest] else [])))"

text \<open>
  \<open>np.log10\<close> of a negative number is NaN (with a warning, no exception), and so is the
  product then.
\<close>

definition percentage_to_efield ::
    "FCC96326 \<Rightarrow> real \<Rightarrow> real \<Rightarrow> (error + pyfloat) \<times> log_event list" where
  "percentage_to_efield self percentage f =
     (if percentage = 0.0 then (Inr (Fin 0.0), [])
      else let percentage_db = 10 * log 10 (percentage / 100.0)
           in case efield_limit self f of
                (Inl e, w) \<Rightarrow> (Inl e, w)
              | (Inr limit, w) \<Rightarrow>
                  (Inr (if percentage < 0 then NaN
                        else Fin (10 powr (percentage_db / 20.0) * limit)), w))"

definition percentage_to_hfield ::
    "FCC96326 \<Rightarrow> real \<Rightarrow> real \<Rightarrow> (error + pyfloat) \<times> log_event list" where
  "percentage_to_hfield self percentage f =
     (if percentage = 0.0 then (Inr (Fin 0.0), [])
      else let percentage_db = 10 * log 10 (percentage / 100.0)
           in case hfield_limit self f of
                (Inl e, w) \<Rightarrow> (Inl e, w)
              | (Inr limit, w) \<Rightarrow>
                  (Inr (if percentage < 0 then NaN
                        else Fin (10 powr (percentage_db / 20.0) * limit)), w))"

section \<open>Concrete sessions and inputs\<close>

text \<open>
  An idle session on an open port, and the session that \<open>start_measurement\<close> makes of it
  once the device has answered \<open>0;\<close> to \<open>REMOTE ON\<close>.
\<close>

definition session_idle :: RadMan2 where
  "session_idle =
     \<lparr>measurement_running = False, callback = None, sample_rate = 1,
      s = \<lparr>is_open = True, written = [], incoming = []\<rparr>,
      device_info = Map.empty, probe_info = Map.empty,
      threads_started = 0, logged = [], delivered = []\<rparr>"

definition session_measuring :: RadMan2 where
  "session_measuring =
     \<lparr>measurement_running = True, callback = None, sample_rate = 1,
      s = \<lparr>is_open = True, written = [''REMOTE ON;'', ''MEAS_START_CIB;''], incoming = []\<rparr>,
      device_info = Map.empty, probe_info = Map.empty,
      threads_started = 1, logged = [], delivered = []\<rparr>"

text \<open>The idle session with the lines \<open>ls\<close> on their way from the device.\<close>

definition session_with :: "bytes list \<Rightarrow> RadMan2" where
  "session_with ls = session_idle\<lparr>s := (s session_idle)\<lparr>incoming := ls\<rparr>\<rparr>"

text \<open>
  A measuring session whose callback accepts every sample, with the lines \<open>ls\<close> on
  their way.
\<close>

definition session_streaming :: "bytes list \<Rightarrow> RadMan2" where
  "session_streaming ls =
     \<lparr>measurement_running = True, callback = Some (\<lambda>output. None), sample_rate = 1,
      s = \<lparr>is_open = True, written = [''REMOTE ON;'', ''MEAS_START_CIB;''], incoming = ls\<rparr>,
      device_info = Map.empty, probe_info = Map.empty,
      threads_started = 1, logged = [], delivered = []\<rparr>"

text \<open>Replies to \<open>DEVICE_INFO?\<close> with ten and with nine fields.\<close>

definition device_reply :: bytes where
  "device_reply =
     ''RadMan 2XT,2281/104,A-0123,1,2XT,V1.0.4,2023-03-01,2025-03-01,0,none;''
       @ [CHR 0x0D, CHR 0x0A]"

definition device_reply_short :: bytes where
  "device_reply_short =
     ''RadMan 2XT,2281/104,A-0123,1,2XT,V1.0.4,2023-03-01,2025-03-01,0;''
       @ [CHR 0x0D, CHR 0x0A]"

text \<open>
  Replies to \<open>Probe_INFO?\<close> with twelve fields: one whose four frequency fields are not
  numbers, and one whose E-field range is given and whose H-field range is empty.
\<close>

definition probe_reply_malformed :: bytes where
  "probe_reply_malformed =
     ''EF-Probe,2402/11,B-0042,2023-03-01,2025-03-01,E,n/a,n/a,n/a,n/a,1,FCC 96-326 / Occupational;''
       @ [CHR 0x0D, CHR 0x0A]"

definition probe_reply_e_only :: bytes where
  "probe_reply_e_only =
     ''EF-Probe,2402/11,B-0042,2023-03-01,2025-03-01,E,900000,6e9,,,1,FCC 96-326 / Occupational;''
       @ [CHR 0x0D, CHR 0x0A]"

text \<open>Measurement lines, and a line that is not UTF-8.\<close>

definition sample_line :: bytes where
  "sample_line = ''0,8,0,OK,OK,100;'' @ [CHR 0x0D, CHR 0x0A]"

definition sample_line2 :: bytes where
  "sample_line2 = ''150,25,0,OK,OK,87;'' @ [CHR 0x0D, CHR 0x0A]"

definition noise_line :: bytes where
  "noise_line = [CHR 0xFF, CHR 0x0A]"

section \<open>Evaluation\<close>

lemmas io_defs = command_def serial_write_def serial_readline_def decode_def strip_def
  isspace_def drop_last_def char_of_def bit_Suc_0_iff session_idle_def session_with_def

lemmas float_defs = py_float_def isdigit_def c_isspace_def lower_def decimal_def
  exponent_def scale10_def digits_value_def isspace_def

lemma py_float_0: "py_float (ascii ''0'') = Inr (Fin 0)"
  by (simp add: float_defs)

lemma py_float_8: "py_float (ascii ''8'') = Inr (Fin 8)"
  by (simp add: float_defs)

lemma py_float_100: "py_float (ascii ''100'') = Inr (Fin 100)"
  by (simp add: float_defs)

lemma py_float_150: "py_float (ascii ''150'') = Inr (Fin 150)"
  by (simp add: float_defs)

lemma py_float_25: "py_float (ascii ''25'') = Inr (Fin 25)"
  by (simp add: float_defs)

lemma py_float_87: "py_float (ascii ''87'') = Inr (Fin 87)"
  by (simp add: float_defs)

lemma py_float_na: "py_float (ascii ''n/a'') = Inl ValueError"
  by (simp add: float_defs)

lemma py_float_empty: "py_float [] = Inl ValueError"
  by (simp add: float_defs)

lemma py_float_900000: "py_float (ascii ''900000'') = Inr (Fin 900000)"
  by (simp add: float_defs)

lemma py_float_6e9: "py_float (ascii ''6e9'') = Inr (Fin 6000000000)"
  by (simp add: float_defs)

section \<open>The mode guard\<close>

lemma start_measurement_reaches_measuring:
  "start_measurement (session_with [''0;'' @ [CHR 0x0A]]) = (Inr (), session_measuring)"
  by (simp add: io_defs session_measuring_def start_measurement_def set_remote_mode_def)

text \<open>
  C1 (evaluation of the code): in the measuring session \<open>stop_measurement\<close> is stopped by
  the guard of \<open>command\<close>: it returns with the session unchanged and nothing more written,
  whereas on the idle session it writes \<open>MEAS_STOP_CIB;\<close>. \<open>close\<close> on the
  measuring session closes the port and writes nothing either.
\<close>

theorem stop_measurement_while_measuring:
  "stop_measurement session_measuring = (Inr (), session_measuring) \<and>
   written (s (snd (stop_measurement session_measuring))) = [''REMOTE ON;'', ''MEAS_START_CIB;''] \<and>
   written (s (snd (stop_measurement session_idle))) = [''MEAS_STOP_CIB;''] \<and>
   written (s (close session_measuring)) = [''REMOTE ON;'', ''MEAS_START_CIB;''] \<and>
   is_open (s (close session_measuring)) = False"
  by (simp add: stop_measurement_def command_def session_measuring_def session_idle_def
      close_def serial_close_def serial_write_def char_of_def bit_Suc_0_iff)

text \<open>
  C2: while \<open>measurement_running\<close> is true, \<open>command\<close> returns \<open>None\<close> for every command
  string and either value of \<open>noreply\<close>, and leaves the session as it was; in particular
  nothing is written to the port.
\<close>

theorem command_disabled_while_measuring:
  "measurement_running self \<Longrightarrow>
     command cmd noreply self = (Inr None, self) \<and>
     written (s (snd (command cmd noreply self))) = written (s self)"
  by (simp add: command_def)

theorem command_disabled_while_measuring_witness:
  "measurement_running session_measuring \<and>
   command (ascii ''DEVICE_INFO?'') False session_measuring = (Inr None, session_measuring) \<and>
   written (s (snd (command (ascii ''DEVICE_INFO?'') False session_measuring))) =
     [''REMOTE ON;'', ''MEAS_START_CIB;'']"
proof -
  have r: "measurement_running session_measuring"
    by (simp add: session_measuring_def)
  from command_disabled_while_measuring [OF r, of "ascii ''DEVICE_INFO?''" False] r
  show ?thesis by (simp add: session_measuring_def)
qed

text \<open>
  C10: while \<open>measurement_running\<close> is true, \<open>start_measurement\<close> returns at once with the
  session unchanged: nothing is written to the port and no thread is started.
\<close>

theorem start_measurement_noop_when_running:
  "measurement_running self \<Longrightarrow>
     start_measurement self = (Inr (), self) \<and>
     written (s (snd (start_measurement self))) = written (s self) \<and>
     threads_started (snd (start_measurement self)) = threads_started self"
  by (simp add: start_measurement_def)

theorem start_measurement_noop_when_running_witness:
  "measurement_running session_measuring \<and>
   start_measurement session_measuring = (Inr (), session_measuring) \<and>
   written (s (snd (start_measurement session_measuring))) =
     [''REMOTE ON;'', ''MEAS_START_CIB;''] \<and>
   threads_started (snd (start_measurement session_measuring)) = 1"
proof -
  have r: "measurement_running session_measuring"
    by (simp add: session_measuring_def)
  from start_measurement_noop_when_running [OF r] r
  show ?thesis by (simp add: session_measuring_def)
qed

section \<open>The info queries\<close>

lemma command_device_reply:
  "command (ascii ''DEVICE_INFO?'') False (session_with [device_reply]) =
     (Inr (Some (ascii ''RadMan 2XT,2281/104,A-0123,1,2XT,V1.0.4,2023-03-01,2025-03-01,0,none;'')),
      session_idle\<lparr>s := (s session_idle)\<lparr>written := [''DEVICE_INFO?;'']\<rparr>\<rparr>)"
  by (simp add: io_defs device_reply_def)

lemma command_device_reply_short:
  "command (ascii ''DEVICE_INFO?'') False (session_with [device_reply_short]) =
     (Inr (Some (ascii ''RadMan 2XT,2281/104,A-0123,1,2XT,V1.0.4,2023-03-01,2025-03-01,0;'')),
      session_idle\<lparr>s := (s session_idle)\<lparr>written := [''DEVICE_INFO?;'']\<rparr>\<rparr>)"
  by (simp add: io_defs device_reply_short_def)

text \<open>
  C5: when \<open>command\<close> delivers the reply \<open>data\<close>, \<open>get_device_info\<close> splits \<open>data[:-1]\<close> at
  the commas; it raises \<open>ValueError\<close> (the spec's ProtocolError) exactly when that does not
  give ten fields, and otherwise returns the dictionary of the ten keys, each mapped to the
  field at its position.
\<close>

theorem get_device_info_field_count:
  assumes "command (ascii ''DEVICE_INFO?'') False self = (Inr (Some data), self')"
  shows "get_device_info self =
     (let flds = split_comma (drop_last data)
      in if length flds = 10
         then (Inr [''product_name'' \<mapsto> PStr (flds ! 0),
                    ''production_id'' \<mapsto> PStr (flds ! 1),
                    ''serial_number'' \<mapsto> PStr (flds ! 2),
                    ''device_id'' \<mapsto> PStr (flds ! 3),
                    ''device_type'' \<mapsto> PStr (flds ! 4),
                    ''firmware_version'' \<mapsto> PStr (flds ! 5),
                    ''calibration_date'' \<mapsto> PStr (flds ! 6),
                    ''calibration_due'' \<mapsto> PStr (flds ! 7),
                    ''num_options'' \<mapsto> PStr (flds ! 8),
                    ''options_name'' \<mapsto> PStr (flds ! 9)], self')
         else (Inl ValueError, self'))"
  using assms by (simp add: get_device_info_def Let_def)

theorem get_device_info_field_count_witness:
  "get_device_info (session_with [device_reply]) =
     (Inr [''product_name'' \<mapsto> PStr (ascii ''RadMan 2XT''),
           ''production_id'' \<mapsto> PStr (ascii ''2281/104''),
           ''serial_number'' \<mapsto> PStr (ascii ''A-0123''),
           ''device_id'' \<mapsto> PStr (ascii ''1''),
           ''device_type'' \<mapsto> PStr (ascii ''2XT''),
           ''firmware_version'' \<mapsto> PStr (ascii ''V1.0.4''),
           ''calibration_date'' \<mapsto> PStr (ascii ''2023-03-01''),
           ''calibration_due'' \<mapsto> PStr (ascii ''2025-03-01''),
           ''num_options'' \<mapsto> PStr (ascii ''0''),
           ''options_name'' \<mapsto> PStr (ascii ''none'')],
      session_idle\<lparr>s := (s session_idle)\<lparr>written := [''DEVICE_INFO?;'']\<rparr>\<rparr>) \<and>
   get_device_info (session_with [device_reply_short]) =
     (Inl ValueError, session_idle\<lparr>s := (s session_idle)\<lparr>written := [''DEVICE_INFO?;'']\<rparr>\<rparr>)"
  using get_device_info_field_count [OF command_device_reply]
    get_device_info_field_count [OF command_device_reply_short]
  by (simp add: drop_last_def)

text \<open>Without a reply (the session is measuring) the query raises \<open>TypeError\<close>.\<close>

lemma get_device_info_while_measuring:
  "measurement_running self \<Longrightarrow> get_device_info self = (Inl TypeError, self)"
  by (simp add: get_device_info_def command_def)

lemma command_probe_reply_malformed:
  "command (ascii ''Probe_INFO?'') False (session_with [probe_reply_malformed]) =
     (Inr (Some (ascii ''EF-Probe,2402/11,B-0042,2023-03-01,2025-03-01,E,n/a,n/a,n/a,n/a,1,FCC 96-326 / Occupational;'')),
      session_idle\<lparr>s := (s session_idle)\<lparr>written := [''Probe_INFO?;'']\<rparr>\<rparr>)"
  by (simp add: io_defs probe_reply_malformed_def)

lemma split_probe_reply_malformed:
  "split_comma (drop_last (ascii ''EF-Probe,2402/11,B-0042,2023-03-01,2025-03-01,E,n/a,n/a,n/a,n/a,1,FCC 96-326 / Occupational;'')) =
    [ascii ''EF-Probe'', ascii ''2402/11'', ascii ''B-0042'', ascii ''2023-03-01'',
     ascii ''2025-03-01'', ascii ''E'', ascii ''n/a'', ascii ''n/a'', ascii ''n/a'', ascii ''n/a'',
     ascii ''1'', ascii ''FCC 96-326 / Occupational'']"
  by (simp add: drop_last_def)

text \<open>
  C6: when \<open>command\<close> delivers the reply \<open>data\<close> and \<open>flds\<close> are the fields of \<open>data[:-1]\<close>,
  \<^item> a field count other than twelve raises \<open>ValueError\<close>;
  \<^item> with twelve fields no exception escapes, whatever the fields are, and the result
    holds the six mandatory keys, each mapped to the field at its position;
  \<^item> with twelve fields of which the first optional numeric field (field 6) is
    malformed, the result holds the six mandatory keys and nothing else, and one warning
    is logged;
  \<^item> so it is in particular when the four optional numeric fields (6 to 9) are
    malformed.
\<close>

theorem get_probe_info_partial:
  assumes "command (ascii ''Probe_INFO?'') False self = (Inr (Some data), self')"
      and "flds = split_comma (drop_last data)"
  shows "(length flds \<noteq> 12 \<longrightarrow> get_probe_info self = (Inl ValueError, self')) \<and>
         (length flds = 12 \<longrightarrow>
            (\<exists>output st. get_probe_info self = (Inr output, st) \<and>
               output ''product_name'' = Some (PStr (flds ! 0)) \<and>
               output ''production_id'' = Some (PStr (flds ! 1)) \<and>
               output ''serial_number'' = Some (PStr (flds ! 2)) \<and>
               output ''calibration_date'' = Some (PStr (flds ! 3)) \<and>
               output ''calibration_due'' = Some (PStr (flds ! 4)) \<and>
               output ''field_type'' = Some (PStr (flds ! 5)))) \<and>
         (length flds = 12 \<and> py_float (flds ! 6) = Inl e \<longrightarrow>
            get_probe_info self =
              (Inr [''product_name'' \<mapsto> PStr (flds ! 0),
                    ''production_id'' \<mapsto> PStr (flds ! 1),
                    ''serial_number'' \<mapsto> PStr (flds ! 2),
                    ''calibration_date'' \<mapsto> PStr (flds ! 3),
                    ''calibration_due'' \<mapsto> PStr (flds ! 4),
                    ''field_type'' \<mapsto> PStr (flds ! 5)],
               self'\<lparr>logged := logged self' @ [Warning_probe_info e]\<rparr>)) \<and>
         (length flds = 12 \<and> (\<forall>i\<in>{6, 7, 8, 9}. \<exists>e'. py_float (flds ! i) = Inl e') \<longrightarrow>
            (\<exists>e'. get_probe_info self =
              (Inr [''product_name'' \<mapsto> PStr (flds ! 0),
                    ''production_id'' \<mapsto> PStr (flds ! 1),
                    ''serial_number'' \<mapsto> PStr (flds ! 2),
                    ''calibration_date'' \<mapsto> PStr (flds ! 3),
                    ''calibration_due'' \<mapsto> PStr (flds ! 4),
                    ''field_type'' \<mapsto> PStr (flds ! 5)],
               self'\<lparr>logged := logged self' @ [Warning_probe_info e']\<rparr>)))"
proof -
  have count: "length flds \<noteq> 12 \<longrightarrow> get_probe_info self = (Inl ValueError, self')"
    using assms by (simp add: get_probe_info_def Let_def)
  have mandatory: "length flds = 12 \<longrightarrow>
            (\<exists>output st. get_probe_info self = (Inr output, st) \<and>
               output ''product_name'' = Some (PStr (flds ! 0)) \<and>
               output ''production_id'' = Some (PStr (flds ! 1)) \<and>
               output ''serial_number'' = Some (PStr (flds ! 2)) \<and>
               output ''calibration_date'' = Some (PStr (flds ! 3)) \<and>
               output ''calibration_due'' = Some (PStr (flds ! 4)) \<and>
               output ''field_type'' = Some (PStr (flds ! 5)))"
    using assms
    by (auto simp add: get_probe_info_def probe_optional_def Let_def split: sum.splits)
  have first: "get_probe_info self =
              (Inr [''product_name'' \<mapsto> PStr (flds ! 0),
                    ''production_id'' \<mapsto> PStr (flds ! 1),
                    ''serial_number'' \<mapsto> PStr (flds ! 2),
                    ''calibration_date'' \<mapsto> PStr (flds ! 3),
                    ''calibration_due'' \<mapsto> PStr (flds ! 4),
                    ''field_type'' \<mapsto> PStr (flds ! 5)],
               self'\<lparr>logged := logged self' @ [Warning_probe_info x]\<rparr>)"
    if "length flds = 12" and "py_float (flds ! 6) = Inl x" for x
    using assms that by (simp add: get_probe_info_def probe_optional_def Let_def)
  from count mandatory first show ?thesis
    by blast
qed

theorem get_probe_info_partial_witness:
  "get_probe_info (session_with [probe_reply_malformed]) =
     (Inr [''product_name'' \<mapsto> PStr (ascii ''EF-Probe''),
           ''production_id'' \<mapsto> PStr (ascii ''2402/11''),
           ''serial_number'' \<mapsto> PStr (ascii ''B-0042''),
           ''calibration_date'' \<mapsto> PStr (ascii ''2023-03-01''),
           ''calibration_due'' \<mapsto> PStr (ascii ''2025-03-01''),
           ''field_type'' \<mapsto> PStr (ascii ''E'')],
      session_idle\<lparr>s := (s session_idle)\<lparr>written := [''Probe_INFO?;'']\<rparr>,
                    logged := [Warning_probe_info ValueError]\<rparr>)"
proof -
  note t = get_probe_info_partial
    [OF command_probe_reply_malformed split_probe_reply_malformed [symmetric], of ValueError]
  have f: "py_float ([ascii ''EF-Probe'', ascii ''2402/11'', ascii ''B-0042'', ascii ''2023-03-01'',
     ascii ''2025-03-01'', ascii ''E'', ascii ''n/a'', ascii ''n/a'', ascii ''n/a'', ascii ''n/a'',
     ascii ''1'', ascii ''FCC 96-326 / Occupational''] ! 6) = Inl ValueError"
    using py_float_na by simp
  from t f show ?thesis
    by (simp add: session_idle_def)
qed

text \<open>
  When a later numeric field is the first malformed one, the keys assigned before it stay
  in the result: here the E-field range is kept and the H-field range, \<open>shaped\<close> and
  \<open>standard_name\<close> are absent.
\<close>

lemma get_probe_info_keeps_parsed:
  assumes "command (ascii ''Probe_INFO?'') False self = (Inr (Some data), self')"
      and "flds = split_comma (drop_last data)" and "length flds = 12"
      and "py_float (flds ! 6) = Inr x6" and "py_float (flds ! 7) = Inr x7"
      and "py_float (flds ! 8) = Inl e"
  shows "get_probe_info self =
           (Inr [''product_name'' \<mapsto> PStr (flds ! 0),
                 ''production_id'' \<mapsto> PStr (flds ! 1),
                 ''serial_number'' \<mapsto> PStr (flds ! 2),
                 ''calibration_date'' \<mapsto> PStr (flds ! 3),
                 ''calibration_due'' \<mapsto> PStr (flds ! 4),
                 ''field_type'' \<mapsto> PStr (flds ! 5),
                 ''e_field_lower_frequency_hz'' \<mapsto> PFloat x6,
                 ''e_field_upper_frequency_hz'' \<mapsto> PFloat x7],
            self'\<lparr>logged := logged self' @ [Warning_probe_info e]\<rparr>)"
  using assms
  by (simp add: get_probe_info_def probe_optional_def Let_def)

lemma command_probe_reply_e_only:
  "command (ascii ''Probe_INFO?'') False (session_with [probe_reply_e_only]) =
     (Inr (Some (ascii ''EF-Probe,2402/11,B-0042,2023-03-01,2025-03-01,E,900000,6e9,,,1,FCC 96-326 / Occupational;'')),
      session_idle\<lparr>s := (s session_idle)\<lparr>written := [''Probe_INFO?;'']\<rparr>\<rparr>)"
  by (simp add: io_defs probe_reply_e_only_def)

lemma split_probe_reply_e_only:
  "split_comma (drop_last (ascii ''EF-Probe,2402/11,B-0042,2023-03-01,2025-03-01,E,900000,6e9,,,1,FCC 96-326 / Occupational;'')) =
    [ascii ''EF-Probe'', ascii ''2402/11'', ascii ''B-0042'', ascii ''2023-03-01'',
     ascii ''2025-03-01'', ascii ''E'', ascii ''900000'', ascii ''6e9'', [], [],
     ascii ''1'', ascii ''FCC 96-326 / Occupational'']"
  by (simp add: drop_last_def)

lemma get_probe_info_e_only:
  "get_probe_info (session_with [probe_reply_e_only]) =
     (Inr [''product_name'' \<mapsto> PStr (ascii ''EF-Probe''),
           ''production_id'' \<mapsto> PStr (ascii ''2402/11''),
           ''serial_number'' \<mapsto> PStr (ascii ''B-0042''),
           ''calibration_date'' \<mapsto> PStr (ascii ''2023-03-01''),
           ''calibration_due'' \<mapsto> PStr (ascii ''2025-03-01''),
           ''field_type'' \<mapsto> PStr (ascii ''E''),
           ''e_field_lower_frequency_hz'' \<mapsto> PFloat (Fin 900000),
           ''e_field_upper_frequency_hz'' \<mapsto> PFloat (Fin 6000000000)],
      session_idle\<lparr>s := (s session_idle)\<lparr>written := [''Probe_INFO?;'']\<rparr>,
                    logged := [Warning_probe_info ValueError]\<rparr>)"
proof -
  let ?flds = "[ascii ''EF-Probe'', ascii ''2402/11'', ascii ''B-0042'', ascii ''2023-03-01'',
     ascii ''2025-03-01'', ascii ''E'', ascii ''900000'', ascii ''6e9'', [], [],
     ascii ''1'', ascii ''FCC 96-326 / Occupational'']"
  have l: "length ?flds = 12" by simp
  have f6: "py_float (?flds ! 6) = Inr (Fin 900000)" using py_float_900000 by simp
  have f7: "py_float (?flds ! 7) = Inr (Fin 6000000000)" using py_float_6e9 by simp
  have f8: "py_float (?flds ! 8) = Inl ValueError" using py_float_empty by simp
  from get_probe_info_keeps_parsed
    [OF command_probe_reply_e_only split_probe_reply_e_only [symmetric] l f6 f7 f8]
  show ?thesis by (simp add: session_idle_def)
qed

section \<open>The measurement loop\<close>

text \<open>
  A pass over a line that decodes ends normally, whatever the line holds: the loop's
  condition is as before and the next pass reads the next line.
\<close>

lemma measurement_iteration_decodable:
  assumes "serial_readline (s self) = Inr (raw, p)" and "decode raw = Inr txt"
  shows "\<exists>st. measurement_iteration self = (Inr (), st) \<and>
              measurement_running st = measurement_running self \<and> s st = p"
  using assms
  by (auto simp add: measurement_iteration_def Let_def split: sum.splits option.splits)

text \<open>
  So the loop makes its \<open>n\<close> passes without an exception when the port is open and
  every line on its way decodes (a timeout gives the empty line, which decodes).
\<close>

lemma measurement_loop_decodable:
  assumes "is_open (s self)" and "\<forall>l\<in>set (incoming (s self)). \<exists>t. decode l = Inr t"
  shows "fst (measurement_loop n self) = Inr ()"
  using assms
proof (induction n arbitrary: self)
  case 0
  then show ?case by simp
next
  case (Suc n)
  show ?case
  proof (cases "measurement_running self")
    case False
    then show ?thesis by simp
  next
    case True
    obtain raw p where r: "serial_readline (s self) = Inr (raw, p)"
      and d: "\<exists>t. decode raw = Inr t"
      and p: "is_open p" "\<forall>l\<in>set (incoming p). \<exists>t. decode l = Inr t"
      using Suc.prems
      by (cases "incoming (s self)") (auto simp add: serial_readline_def decode_def)
    from d obtain t where "decode raw = Inr t" ..
    from measurement_iteration_decodable [OF r this] obtain st where
      st: "measurement_iteration self = (Inr (), st)" "s st = p"
      by blast
    from p st(2) have "fst (measurement_loop n st) = Inr ()"
      by (intro Suc.IH) simp_all
    with True st(1) show ?thesis by simp
  qed
qed

lemma measurement_iteration_sample:
  assumes "serial_readline (s self) = Inr (raw, p)"
      and "decode raw = Inr txt"
      and "flds = split_comma (drop_last (strip txt))"
      and "length flds = 6"
      and "py_float (flds ! 0) = Inr e_pct"
      and "py_float (flds ! 1) = Inr h_pct"
      and "py_float (flds ! 5) = Inr battery"
      and "callback self = Some cb"
  shows "fst (measurement_iteration self) = Inr () \<and>
         delivered (snd (measurement_iteration self)) =
           delivered self @
             [[''e_field_percentage'' \<mapsto> PFloat (fdiv100 e_pct),
               ''h_field_percentage'' \<mapsto> PFloat (fdiv100 h_pct),
               ''unknown'' \<mapsto> PStr (flds ! 2),
               ''e_field_ok'' \<mapsto> PStr (flds ! 3),
               ''h_fields_ok'' \<mapsto> PStr (flds ! 4),
               ''battery_percentage'' \<mapsto> PFloat battery]]"
  using assms
  by (simp add: measurement_iteration_def measurement_output_def Let_def split: option.splits)

lemma readline_streaming:
  "serial_readline (s (session_streaming (l # ls))) =
     Inr (l, (s (session_streaming (l # ls)))\<lparr>incoming := ls\<rparr>)"
  by (simp add: serial_readline_def session_streaming_def)

lemma decode_sample_line: "decode sample_line = Inr (ascii ''0,8,0,OK,OK,100;'' @ [13, 10])"
  by (simp add: decode_def sample_line_def)

lemma fields_sample_line:
  "split_comma (drop_last (strip (ascii ''0,8,0,OK,OK,100;'' @ [13, 10]))) =
     [ascii ''0'', ascii ''8'', ascii ''0'', ascii ''OK'', ascii ''OK'', ascii ''100'']"
  by (simp add: strip_def isspace_def drop_last_def)

lemma decode_sample_line2: "decode sample_line2 = Inr (ascii ''150,25,0,OK,OK,87;'' @ [13, 10])"
  by (simp add: decode_def sample_line2_def)

lemma fields_sample_line2:
  "split_comma (drop_last (strip (ascii ''150,25,0,OK,OK,87;'' @ [13, 10]))) =
     [ascii ''150'', ascii ''25'', ascii ''0'', ascii ''OK'', ascii ''OK'', ascii ''87'']"
  by (simp add: strip_def isspace_def drop_last_def)

lemma sample_line_example:
  "fst (measurement_iteration (session_streaming [sample_line])) = Inr () \<and>
   delivered (snd (measurement_iteration (session_streaming [sample_line]))) =
     [[''e_field_percentage'' \<mapsto> PFloat (Fin 0),
       ''h_field_percentage'' \<mapsto> PFloat (Fin (8 / 100)),
       ''unknown'' \<mapsto> PStr (ascii ''0''),
       ''e_field_ok'' \<mapsto> PStr (ascii ''OK''),
       ''h_fields_ok'' \<mapsto> PStr (ascii ''OK''),
       ''battery_percentage'' \<mapsto> PFloat (Fin 100)]]"
proof -
  have c: "callback (session_streaming [sample_line]) = Some (\<lambda>output. None)"
    by (simp add: session_streaming_def)
  have d: "delivered (session_streaming [sample_line]) = []"
    by (simp add: session_streaming_def)
  from measurement_iteration_sample
    [OF readline_streaming decode_sample_line fields_sample_line [symmetric] _ _ _ _ c,
      of "Fin 0" "Fin 8" "Fin 100"] py_float_0 py_float_8 py_float_100 d
  show ?thesis by simp
qed

text \<open>
  C4: a line that decodes, has six fields and whose fields 0, 1 and 5 are float literals
  gives the callback a sample in which fields 0 and 1 are divided by 100 and field 5 is
  taken as it is; fields 2 to 4 are passed on as strings. The line \<open>0,8,0,OK,OK,100;\<close>
  gives \<open>e_field_percentage = 0\<close>, \<open>h_field_percentage = 8/100\<close> and
  \<open>battery_percentage = 100\<close>.
\<close>

theorem measurement_sample_scaling:
  "(\<forall>self raw p txt flds e_pct h_pct battery cb.
      serial_readline (s self) = Inr (raw, p) \<longrightarrow>
      decode raw = Inr txt \<longrightarrow>
      flds = split_comma (drop_last (strip txt)) \<longrightarrow>
      length flds = 6 \<longrightarrow>
      py_float (flds ! 0) = Inr e_pct \<longrightarrow>
      py_float (flds ! 1) = Inr h_pct \<longrightarrow>
      py_float (flds ! 5) = Inr battery \<longrightarrow>
      callback self = Some cb \<longrightarrow>
        fst (measurement_iteration self) = Inr () \<and>
        delivered (snd (measurement_iteration self)) =
          delivered self @
            [[''e_field_percentage'' \<mapsto> PFloat (fdiv100 e_pct),
              ''h_field_percentage'' \<mapsto> PFloat (fdiv100 h_pct),
              ''unknown'' \<mapsto> PStr (flds ! 2),
              ''e_field_ok'' \<mapsto> PStr (flds ! 3),
              ''h_fields_ok'' \<mapsto> PStr (flds ! 4),
              ''battery_percentage'' \<mapsto> PFloat battery]]) \<and>
   (\<forall>r. fdiv100 (Fin r) = Fin (r / 100)) \<and>
   delivered (snd (measurement_iteration (session_streaming [sample_line]))) =
     [[''e_field_percentage'' \<mapsto> PFloat (Fin 0),
       ''h_field_percentage'' \<mapsto> PFloat (Fin (8 / 100)),
       ''unknown'' \<mapsto> PStr (ascii ''0''),
       ''e_field_ok'' \<mapsto> PStr (ascii ''OK''),
       ''h_fields_ok'' \<mapsto> PStr (ascii ''OK''),
       ''battery_percentage'' \<mapsto> PFloat (Fin 100)]]"
proof (intro conjI allI impI)
  fix self :: RadMan2 and raw p decoded flds e_pct h_pct battery cb
  assume a: "serial_readline (s self) = Inr (raw, p)" "decode raw = Inr decoded"
    "flds = split_comma (drop_last (strip decoded))" "length flds = 6"
    "py_float (flds ! 0) = Inr e_pct" "py_float (flds ! 1) = Inr h_pct"
    "py_float (flds ! 5) = Inr battery" "callback self = Some cb"
  note r = measurement_iteration_sample [OF a]
  from r show "fst (measurement_iteration self) = Inr ()" by (rule conjunct1)
  from r show "delivered (snd (measurement_iteration self)) =
          delivered self @
            [[''e_field_percentage'' \<mapsto> PFloat (fdiv100 e_pct),
              ''h_field_percentage'' \<mapsto> PFloat (fdiv100 h_pct),
              ''unknown'' \<mapsto> PStr (flds ! 2),
              ''e_field_ok'' \<mapsto> PStr (flds ! 3),
              ''h_fields_ok'' \<mapsto> PStr (flds ! 4),
              ''battery_percentage'' \<mapsto> PFloat battery]]" by (rule conjunct2)
next
  fix r show "fdiv100 (Fin r) = Fin (r / 100)" by simp
next
  from sample_line_example
  show "delivered (snd (measurement_iteration (session_streaming [sample_line]))) =
     [[''e_field_percentage'' \<mapsto> PFloat (Fin 0),
       ''h_field_percentage'' \<mapsto> PFloat (Fin (8 / 100)),
       ''unknown'' \<mapsto> PStr (ascii ''0''),
       ''e_field_ok'' \<mapsto> PStr (ascii ''OK''),
       ''h_fields_ok'' \<mapsto> PStr (ascii ''OK''),
       ''battery_percentage'' \<mapsto> PFloat (Fin 100)]]" by (rule conjunct2)
qed

theorem measurement_sample_scaling_witness:
  "fst (measurement_iteration (session_streaming [sample_line2])) = Inr () \<and>
   delivered (snd (measurement_iteration (session_streaming [sample_line2]))) =
     [[''e_field_percentage'' \<mapsto> PFloat (Fin (150 / 100)),
       ''h_field_percentage'' \<mapsto> PFloat (Fin (25 / 100)),
       ''unknown'' \<mapsto> PStr (ascii ''0''),
       ''e_field_ok'' \<mapsto> PStr (ascii ''OK''),
       ''h_fields_ok'' \<mapsto> PStr (ascii ''OK''),
       ''battery_percentage'' \<mapsto> PFloat (Fin 87)]]"
proof -
  note g = measurement_sample_scaling [THEN conjunct1, rule_format]
  have c: "callback (session_streaming [sample_line2]) = Some (\<lambda>output. None)"
    by (simp add: session_streaming_def)
  have d: "delivered (session_streaming [sample_line2]) = []"
    by (simp add: session_streaming_def)
  from g [OF readline_streaming decode_sample_line2 fields_sample_line2 [symmetric] _ _ _ _ c,
      of "Fin 150" "Fin 25" "Fin 87"] py_float_150 py_float_25 py_float_87 d
  show ?thesis by simp
qed

text \<open>
  C3 (evaluation of the code): the first line read is not UTF-8. \<open>decode()\<close> stands
  before the \<open>try\<close>, so \<open>UnicodeDecodeError\<close> leaves the loop on the first pass: nothing
  is logged, and the well-formed line behind it is never read or delivered.
\<close>

theorem measurement_loop_undecodable_line:
  "measurement_loop 2 (session_streaming [noise_line, sample_line]) =
     (Inl UnicodeDecodeError,
      (session_streaming [noise_line, sample_line])
        \<lparr>s := (s (session_streaming [noise_line, sample_line]))\<lparr>incoming := [sample_line]\<rparr>\<rparr>) \<and>
   delivered (snd (measurement_loop 2 (session_streaming [noise_line, sample_line]))) = [] \<and>
   logged (snd (measurement_loop 2 (session_streaming [noise_line, sample_line]))) = []"
  by (simp add: numeral_2_eq_2 measurement_iteration_def serial_readline_def
      session_streaming_def noise_line_def decode_def)

section \<open>The limit table\<close>

text \<open>
  The scan returns an index of a smallest element. The list scanned so far is \<open>pre\<close>,
  with its minimum \<open>mv\<close> at \<open>mi\<close>.
\<close>

lemma argmin_scan_correct:
  assumes "mi < i" and "length pre = i" and "pre ! mi = mv" and "\<forall>j<i. mv \<le> pre ! j"
  shows "argmin_scan xs i mv mi < i + length xs \<and>
         (\<forall>j < i + length xs. (pre @ xs) ! argmin_scan xs i mv mi \<le> (pre @ xs) ! j)"
  using assms
proof (induction xs arbitrary: pre i mv mi)
  case Nil
  then show ?case by simp
next
  case (Cons x xs)
  have len: "length (pre @ [x]) = Suc i"
    using Cons.prems by simp
  show ?case
  proof (cases "x < mv")
    case True
    have here: "(pre @ [x]) ! i = x"
      using Cons.prems by (simp add: nth_append)
    have least: "\<forall>j<Suc i. x \<le> (pre @ [x]) ! j"
    proof (intro allI impI)
      fix j assume "j < Suc i"
      then show "x \<le> (pre @ [x]) ! j"
        using Cons.prems True
        by (cases "j = i") (auto simp: nth_append less_Suc_eq dest: spec [of _ j])
    qed
    from Cons.IH [OF lessI len here least] True show ?thesis by simp
  next
    case False
    have before: "mi < Suc i"
      using Cons.prems by simp
    have here: "(pre @ [x]) ! mi = mv"
      using Cons.prems by (simp add: nth_append)
    have least: "\<forall>j<Suc i. mv \<le> (pre @ [x]) ! j"
    proof (intro allI impI)
      fix j assume "j < Suc i"
      then show "mv \<le> (pre @ [x]) ! j"
        using Cons.prems False by (cases "j = i") (auto simp: nth_append less_Suc_eq)
    qed
    from Cons.IH [OF before len here least] False show ?thesis by simp
  qed
qed

lemma np_argmin_correct:
  assumes "xs \<noteq> []"
  shows "\<exists>idx. np_argmin xs = Inr idx \<and> idx < length xs \<and> (\<forall>j<length xs. xs ! idx \<le> xs ! j)"
proof -
  from assms obtain x r where xs: "xs = x # r"
    by (cases xs) auto
  have "argmin_scan r 1 x 0 < 1 + length r \<and>
        (\<forall>j < 1 + length r. ([x] @ r) ! argmin_scan r 1 x 0 \<le> ([x] @ r) ! j)"
    by (rule argmin_scan_correct) auto
  then show ?thesis
    by (simp add: xs np_argmin_def)
qed

text \<open>A lookup in any table that is not empty and whose three arrays are equally long.\<close>

lemma limit_lookup:
  assumes "frequency_mhz t \<noteq> []" and "length (efield t) = length (frequency_mhz t)"
    and "length (hfield t) = length (frequency_mhz t)"
  shows "\<exists>idx. idx < length (frequency_mhz t) \<and>
           (\<forall>j<length (frequency_mhz t).
              \<bar>frequency_mhz t ! idx - f\<bar> \<le> \<bar>frequency_mhz t ! j - f\<bar>) \<and>
           efield_limit t f =
             (Inr (efield t ! idx),
              if \<bar>frequency_mhz t ! idx - f\<bar> > 1
              then [Warning_far_from_table f (frequency_mhz t ! idx)] else []) \<and>
           hfield_limit t f =
             (Inr (hfield t ! idx),
              if \<bar>frequency_mhz t ! idx - f\<bar> > 1
              then [Warning_far_from_table f (frequency_mhz t ! idx)] else [])"
proof -
  let ?d = "map (\<lambda>x. \<bar>x - f\<bar>) (frequency_mhz t)"
  from assms(1) have "?d \<noteq> []" by simp
  from np_argmin_correct [OF this] obtain idx where
    i: "np_argmin ?d = Inr idx" "idx < length ?d" "\<forall>j<length ?d. ?d ! idx \<le> ?d ! j"
    by blast
  from i(2) have l: "idx < length (frequency_mhz t)" by simp
  from i(3) l have m: "\<forall>j<length (frequency_mhz t).
      \<bar>frequency_mhz t ! idx - f\<bar> \<le> \<bar>frequency_mhz t ! j - f\<bar>"
    by simp
  from i(1) l assms(2,3) have
    "efield_limit t f =
       (Inr (efield t ! idx),
        if \<bar>frequency_mhz t ! idx - f\<bar> > 1
        then [Warning_far_from_table f (frequency_mhz t ! idx)] else [])"
    "hfield_limit t f =
       (Inr (hfield t ! idx),
        if \<bar>frequency_mhz t ! idx - f\<bar> > 1
        then [Warning_far_from_table f (frequency_mhz t ! idx)] else [])"
    by (simp_all add: efield_limit_def hfield_limit_def getitem_def)
  with l m show ?thesis by blast
qed

text \<open>The occupational table: equally long arrays, not empty, every frequency below 3000.\<close>

lemma occupational_lengths:
  "length (efield (FCC96326_init True)) = length (frequency_mhz (FCC96326_init True))"
  "length (hfield (FCC96326_init True)) = length (frequency_mhz (FCC96326_init True))"
  by (simp_all add: FCC96326_init_def init_tables_occupational_def append_band_def ones_def
      Let_def)

lemma arange_first_band: "length (arange 0.003 0.1 0.01) = 10"
  by (simp add: arange_def)

lemma occupational_nonempty: "frequency_mhz (FCC96326_init True) \<noteq> []"
  using arange_first_band
  by (auto simp add: FCC96326_init_def init_tables_occupational_def append_band_def Let_def)

lemma arange_less_stop:
  assumes "0 < step" and "x \<in> set (arange start stop step)"
  shows "x < stop"
proof -
  from assms(2) obtain i where
    i: "i < nat \<lceil>(stop - start) / step\<rceil>" and x: "x = start + real i * step"
    by (auto simp: arange_def)
  from i have "int i < \<lceil>(stop - start) / step\<rceil>" by linarith
  then have "real i < (stop - start) / step"
    by (simp add: less_ceiling_iff)
  with assms(1) have "real i * step < stop - start"
    by (simp add: pos_less_divide_eq)
  with x show ?thesis by simp
qed

lemma occupational_below_3000:
  assumes "x \<in> set (frequency_mhz (FCC96326_init True))"
  shows "x < 3000"
proof -
  from assms have "x \<in> set (arange 0.003 0.1 0.01) \<or> x \<in> set (arange 0.1 3.0 0.01) \<or>
      x \<in> set (arange 3.0 30.0 0.01) \<or> x \<in> set (arange 30.0 100.0 0.01) \<or>
      x \<in> set (arange 100.0 300.0 0.01) \<or> x \<in> set (arange 300.0 3000.0 0.01)"
    by (auto simp add: FCC96326_init_def init_tables_occupational_def append_band_def Let_def)
  then show ?thesis
    by (auto dest!: arange_less_stop [rotated])
qed

text \<open>
  C7 (as the code has it): on the general-public variant every call of \<open>efield_limit\<close>
  and of \<open>hfield_limit\<close> raises the \<open>ValueError\<close> of \<open>argmin\<close> on the empty array, and
  logs nothing.
\<close>

theorem general_public_lookup_fails:
  "efield_limit (FCC96326_init False) f = (Inl ValueError, []) \<and>
   hfield_limit (FCC96326_init False) f = (Inl ValueError, [])"
  by (simp add: efield_limit_def hfield_limit_def FCC96326_init_def
      init_tables_general_public_def np_argmin_def)

theorem general_public_lookup_fails_witness:
  "efield_limit (FCC96326_init False) 2450 = (Inl ValueError, []) \<and>
   hfield_limit (FCC96326_init False) 2450 = (Inl ValueError, [])"
  by (rule general_public_lookup_fails)

text \<open>
  C7 (the claim as stated fails): at 100 MHz the general-public lookup does call \<open>argmin\<close>
  on the empty array; the exception is that call's \<open>ValueError\<close>, not
  \<open>NotImplementedError\<close> (the spec's UnimplementedError).
\<close>

theorem general_public_not_unimplemented:
  "np_argmin (map (\<lambda>x. \<bar>x - 100\<bar>) (frequency_mhz (FCC96326_init False))) = Inl ValueError \<and>
   efield_limit (FCC96326_init False) 100 = (Inl ValueError, []) \<and>
   fst (efield_limit (FCC96326_init False) 100) \<noteq> Inl NotImplementedError \<and>
   fst (hfield_limit (FCC96326_init False) 100) \<noteq> Inl NotImplementedError"
  by (simp add: efield_limit_def hfield_limit_def FCC96326_init_def
      init_tables_general_public_def np_argmin_def)

text \<open>
  C8: on the occupational table and for every frequency \<open>f\<close> (those of the table among
  them), a percentage of 0 converts to 0 without a lookup, and a percentage of 100
  converts to the value that \<open>efield_limit f\<close>, respectively \<open>hfield_limit f\<close>, returns.
\<close>

theorem percentage_conversion_identities:
  "percentage_to_efield (FCC96326_init True) 0 f = (Inr (Fin 0), []) \<and>
   percentage_to_hfield (FCC96326_init True) 0 f = (Inr (Fin 0), []) \<and>
   (\<exists>v w. efield_limit (FCC96326_init True) f = (Inr v, w) \<and>
          percentage_to_efield (FCC96326_init True) 100 f = (Inr (Fin v), w)) \<and>
   (\<exists>v w. hfield_limit (FCC96326_init True) f = (Inr v, w) \<and>
          percentage_to_hfield (FCC96326_init True) 100 f = (Inr (Fin v), w))"
proof -
  from limit_lookup [OF occupational_nonempty occupational_lengths, of f]
  obtain v w v' w' where
    e: "efield_limit (FCC96326_init True) f = (Inr v, w)" and
    h: "hfield_limit (FCC96326_init True) f = (Inr v', w')"
    by blast
  have "percentage_to_efield (FCC96326_init True) 100 f = (Inr (Fin v), w)"
    by (simp add: percentage_to_efield_def e)
  moreover have "percentage_to_hfield (FCC96326_init True) 100 f = (Inr (Fin v'), w')"
    by (simp add: percentage_to_hfield_def h)
  moreover have "percentage_to_efield (FCC96326_init True) 0 f = (Inr (Fin 0), [])"
    by (simp add: percentage_to_efield_def)
  moreover have "percentage_to_hfield (FCC96326_init True) 0 f = (Inr (Fin 0), [])"
    by (simp add: percentage_to_hfield_def)
  ultimately show ?thesis using e h by simp
qed

theorem percentage_conversion_identities_witness:
  "percentage_to_efield (FCC96326_init True) 0 100 = (Inr (Fin 0), []) \<and>
   percentage_to_hfield (FCC96326_init True) 0 100 = (Inr (Fin 0), []) \<and>
   (\<exists>v w. efield_limit (FCC96326_init True) 100 = (Inr v, w) \<and>
          percentage_to_efield (FCC96326_init True) 100 100 = (Inr (Fin v), w)) \<and>
   (\<exists>v w. hfield_limit (FCC96326_init True) 100 = (Inr v, w) \<and>
          percentage_to_hfield (FCC96326_init True) 100 100 = (Inr (Fin v), w))"
  by (rule percentage_conversion_identities)

text \<open>
  C9: on the occupational table, for every frequency \<open>f\<close>, both lookups succeed and return
  the limits at one index \<open>idx\<close> of the table whose frequency is nearest to \<open>f\<close> (no
  entry is nearer); the warning is logged exactly when that distance is above 1 MHz,
  and the value is returned all the same.
\<close>

theorem limit_nearest_entry:
  "\<exists>idx. idx < length (frequency_mhz (FCC96326_init True)) \<and>
     (\<forall>j<length (frequency_mhz (FCC96326_init True)).
        \<bar>frequency_mhz (FCC96326_init True) ! idx - f\<bar>
          \<le> \<bar>frequency_mhz (FCC96326_init True) ! j - f\<bar>) \<and>
     efield_limit (FCC96326_init True) f =
       (Inr (efield (FCC96326_init True) ! idx),
        if \<bar>frequency_mhz (FCC96326_init True) ! idx - f\<bar> > 1
        then [Warning_far_from_table f (frequency_mhz (FCC96326_init True) ! idx)] else []) \<and>
     hfield_limit (FCC96326_init True) f =
       (Inr (hfield (FCC96326_init True) ! idx),
        if \<bar>frequency_mhz (FCC96326_init True) ! idx - f\<bar> > 1
        then [Warning_far_from_table f (frequency_mhz (FCC96326_init True) ! idx)] else [])"
  by (rule limit_lookup [OF occupational_nonempty occupational_lengths])

text \<open>
  At 3005 MHz, 5 MHz above the table, the lookup logs the warning and returns the limit
  of an entry that is at least as near as the first one.
\<close>

theorem limit_nearest_entry_witness:
  "\<exists>idx. idx < length (frequency_mhz (FCC96326_init True)) \<and>
     \<bar>frequency_mhz (FCC96326_init True) ! idx - 3005\<bar>
       \<le> \<bar>frequency_mhz (FCC96326_init True) ! 0 - 3005\<bar> \<and>
     efield_limit (FCC96326_init True) 3005 =
       (Inr (efield (FCC96326_init True) ! idx),
        [Warning_far_from_table 3005 (frequency_mhz (FCC96326_init True) ! idx)]) \<and>
     hfield_limit (FCC96326_init True) 3005 =
       (Inr (hfield (FCC96326_init True) ! idx),
        [Warning_far_from_table 3005 (frequency_mhz (FCC96326_init True) ! idx)])"
proof -
  let ?t = "FCC96326_init True"
  from limit_nearest_entry [of 3005] obtain idx where
    l: "idx < length (frequency_mhz ?t)" and
    m: "\<forall>j<length (frequency_mhz ?t).
          \<bar>frequency_mhz ?t ! idx - 3005\<bar> \<le> \<bar>frequency_mhz ?t ! j - 3005\<bar>" and
    e: "efield_limit ?t 3005 =
          (Inr (efield ?t ! idx),
           if \<bar>frequency_mhz ?t ! idx - 3005\<bar> > 1
           then [Warning_far_from_table 3005 (frequency_mhz ?t ! idx)] else [])" and
    h: "hfield_limit ?t 3005 =
          (Inr (hfield ?t ! idx),
           if \<bar>frequency_mhz ?t ! idx - 3005\<bar> > 1
           then [Warning_far_from_table 3005 (frequency_mhz ?t ! idx)] else [])"
    by blast
  from l have "frequency_mhz ?t ! idx \<in> set (frequency_mhz ?t)" by simp
  then have "frequency_mhz ?t ! idx < 3000" by (rule occupational_below_3000)
  then have far: "\<bar>frequency_mhz ?t ! idx - 3005\<bar> > 1" by simp
  from occupational_nonempty have "0 < length (frequency_mhz ?t)" by simp
  with m have "\<bar>frequency_mhz ?t ! idx - 3005\<bar> \<le> \<bar>frequency_mhz ?t ! 0 - 3005\<bar>" by blast
  with l e h far show ?thesis by auto
qed

end
